theory Spec2Isabelle
  imports Main "HOL-Library.Word"
begin

unbundle bit_operations_syntax

section \<open>Data model (include/hardware.hpp)\<close>

text \<open>
  Machine integers: \<open>char\<close> is an 8-bit word, \<open>unsigned int\<close> a 32-bit word and
  \<open>unsigned long\<close> a 64-bit word (LP64, as on 64-bit Linux); \<open>+\<close> and \<open>-\<close> wrap.
  \<open>int\<close> values (pin numbers, \<open>Device::KHz\<close>) are mathematical integers, converted with
  \<open>word_of_int\<close> where the source casts them to \<open>unsigned int\<close>.
\<close>

type_synonym byte = "8 word"
type_synonym uint = "32 word"
type_synonym ulong = "64 word"

datatype IFACE = SPI | DSPI | QSPI | I2C

datatype PROT = S24 | S25

record ChipId =
  manufacturer :: byte
  memoryType :: byte
  capacity :: byte

record Device =
  interface :: IFACE
  protocol :: PROT
  KHz :: int
  bytes :: ulong
  offset :: ulong
  jedecId :: ChipId
  jedecValid :: bool

definition MAX_KHZ :: int where "MAX_KHZ = 1000"
definition S25_PAGE_SIZE :: uint where "S25_PAGE_SIZE = 256"

definition SPI_SCLK :: int where "SPI_SCLK = 2"
definition SPI_MISO :: int where "SPI_MISO = 3"
definition SPI_MOSI :: int where "SPI_MOSI = 4"
definition SPI_HOLD :: int where "SPI_HOLD = 17"
definition SPI_CS :: int where "SPI_CS = 27"
definition SPI_WP :: int where "SPI_WP = 22"

definition READ :: byte where "READ = 0x03"
definition WRITE_ENABLE :: byte where "WRITE_ENABLE = 0x06"
definition PAGE_PROGRAM :: byte where "PAGE_PROGRAM = 0x02"
definition SECTOR_ERASE_4K :: byte where "SECTOR_ERASE_4K = 0x20"
definition BLOCK_ERASE_32K :: byte where "BLOCK_ERASE_32K = 0x52"
definition BLOCK_ERASE_64K :: byte where "BLOCK_ERASE_64K = 0xD8"
definition CHIP_ERASE :: byte where "CHIP_ERASE = 0xC7"
definition READ_JEDEC_ID :: byte where "READ_JEDEC_ID = 0x9F"
definition READ_STATUS :: byte where "READ_STATUS = 0x05"

record hwSPI =
  io_SCLK :: int
  io_MOSI :: int
  io_MISO :: int
  io_CS :: int
  io_WP :: int
  wait_clk :: uint
  wait_byte :: uint
  wait_bit :: uint

datatype FlashInterface = HwSPI hwSPI | HwDSPI | HwQSPI | HwI2C

section \<open>The pin facility and the observable world\<close>

text \<open>
  The pin facility is the external pigpio library (\<open>gpioSetMode\<close>, \<open>gpioWrite\<close>,
  \<open>gpioRead\<close>, \<open>gpioDelay\<close>); the code under study only calls it. Every call is
  recorded, in order, in \<open>pins\<close>. What \<open>gpioRead\<close> returns is a parameter of the world:
  \<open>input w h p\<close> is the level seen on pin \<open>p\<close> after the pin history \<open>h\<close>. It is
  arbitrary, so it covers every chip and every wiring.

  \<open>calls\<close> records, in order, each call of the four transport operations \<open>start\<close>,
  \<open>stop\<close>, \<open>tx_byte\<close> (with the byte sent) and \<open>rx_byte\<close> (with the byte returned): the
  byte-level view of the bus. \<open>cerr\<close> holds the diagnostics written to the error stream, one
  entry per line. Progress output on the standard output stream and the \<open>KiBDone\<close> counters
  that only feed it are left out.
\<close>

datatype gpio_mode = PI_INPUT | PI_OUTPUT

datatype gpio_event =
  SetMode int gpio_mode
  | Write int bool
  | Read int bool
  | Delay uint

datatype bus_op = Start | Stop | Tx byte | Rx byte

record world =
  pins :: "gpio_event list"
  calls :: "bus_op list"
  cerr :: "string list"
  input :: "gpio_event list \<Rightarrow> int \<Rightarrow> bool"

definition gpioSetMode :: "int \<Rightarrow> gpio_mode \<Rightarrow> world \<Rightarrow> world" where
  "gpioSetMode p m w = w\<lparr>pins := pins w @ [SetMode p m]\<rparr>"

definition gpioWrite :: "int \<Rightarrow> bool \<Rightarrow> world \<Rightarrow> world" where
  "gpioWrite p l w = w\<lparr>pins := pins w @ [Write p l]\<rparr>"

definition gpioRead :: "int \<Rightarrow> world \<Rightarrow> bool \<times> world" where
  "gpioRead p w = (let l = input w (pins w) p in (l, w\<lparr>pins := pins w @ [Read p l]\<rparr>))"

definition gpioDelay :: "uint \<Rightarrow> world \<Rightarrow> world" where
  "gpioDelay n w = w\<lparr>pins := pins w @ [Delay n]\<rparr>"

text \<open>The recurring \<open>if (wait != 0) gpioDelay(wait);\<close>.\<close>

definition delay_nz :: "uint \<Rightarrow> world \<Rightarrow> world" where
  "delay_nz n w = (if n \<noteq> 0 then gpioDelay n w else w)"

definition called :: "bus_op \<Rightarrow> world \<Rightarrow> world" where
  "called c w = w\<lparr>calls := calls w @ [c]\<rparr>"

definition report :: "string \<Rightarrow> world \<Rightarrow> world" where
  "report m w = w\<lparr>cerr := cerr w @ [m]\<rparr>"

section \<open>Bit-level transport (hwSPI, src/hardware.cpp)\<close>

definition setWriteProtect :: "hwSPI \<Rightarrow> bool \<Rightarrow> world \<Rightarrow> world" where
  "setWriteProtect dut enable w = gpioWrite (io_WP dut) enable w"

definition setTiming :: "hwSPI \<Rightarrow> uint \<Rightarrow> hwSPI" where
  "setTiming dut khz =
     (if khz = 0 then dut\<lparr>wait_clk := 0, wait_byte := 0, wait_bit := 0\<rparr>
      else
        (let halfUs0 = 500 div khz;
             halfUs = (if halfUs0 < 1 then 1 else halfUs0)
         in dut\<lparr>wait_clk := halfUs, wait_byte := halfUs, wait_bit := halfUs\<rparr>))"

text \<open>The loop of \<open>tx_byte\<close>: \<open>bitIndex\<close> runs from 7 down to 0.\<close>

function tx_loop :: "hwSPI \<Rightarrow> byte \<Rightarrow> int \<Rightarrow> world \<Rightarrow> world" where
  "tx_loop dut b bitIndex w =
     (if 0 \<le> bitIndex then
        (let w1 = gpioWrite (io_MOSI dut) (drop_bit (nat bitIndex) b AND 1 \<noteq> 0) w;
             w2 = delay_nz (wait_bit dut) w1;
             w3 = gpioWrite (io_SCLK dut) True w2;
             w4 = delay_nz (wait_clk dut) w3;
             w5 = gpioWrite (io_SCLK dut) False w4;
             w6 = delay_nz (wait_clk dut) w5
         in tx_loop dut b (bitIndex - 1) w6)
      else w)"
  by pat_completeness auto
termination
  by (relation "measure (\<lambda>(dut, b, bitIndex, w). nat (bitIndex + 1))") auto

declare tx_loop.simps [simp del]

definition tx_byte :: "hwSPI \<Rightarrow> byte \<Rightarrow> world \<Rightarrow> world" where
  "tx_byte dut b w = delay_nz (wait_byte dut) (tx_loop dut b 7 (called (Tx b) w))"

text \<open>The loop of \<open>rx_byte\<close>: \<open>bitIndex\<close> runs from 0 to 7, \<open>data\<close> is the accumulator.\<close>

function rx_loop :: "hwSPI \<Rightarrow> nat \<Rightarrow> byte \<Rightarrow> world \<Rightarrow> byte \<times> world" where
  "rx_loop dut bitIndex data w =
     (if bitIndex < 8 then
        (let data1 = push_bit 1 data;
             (cBit, w1) = gpioRead (io_MISO dut) w;
             data2 = (if cBit then data1 OR 1 else data1);
             w2 = delay_nz (wait_bit dut) w1;
             w3 = gpioWrite (io_SCLK dut) True w2;
             w4 = delay_nz (wait_clk dut) w3;
             w5 = gpioWrite (io_SCLK dut) False w4;
             w6 = delay_nz (wait_clk dut) w5
         in rx_loop dut (bitIndex + 1) data2 w6)
      else (data, w))"
  by pat_completeness auto
termination
  by (relation "measure (\<lambda>(dut, bitIndex, data, w). 8 - bitIndex)") auto

declare rx_loop.simps [simp del]

definition rx_byte :: "hwSPI \<Rightarrow> world \<Rightarrow> byte \<times> world" where
  "rx_byte dut w =
     (let (data, w1) = rx_loop dut 0 0 w;
          w2 = delay_nz (wait_byte dut) w1
      in (data, called (Rx data) w2))"

definition start :: "hwSPI \<Rightarrow> world \<Rightarrow> world" where
  "start dut w = delay_nz (wait_byte dut) (gpioWrite (io_CS dut) False (called Start w))"

definition stop :: "hwSPI \<Rightarrow> world \<Rightarrow> world" where
  "stop dut w = delay_nz (wait_byte dut) (gpioWrite (io_CS dut) True (called Stop w))"

definition readByte :: "hwSPI \<Rightarrow> world \<Rightarrow> byte \<times> world" where
  "readByte dut w = rx_byte dut w"

definition writeByte :: "hwSPI \<Rightarrow> byte \<Rightarrow> world \<Rightarrow> world" where
  "writeByte dut b w = tx_byte dut b w"

definition init :: "hwSPI \<Rightarrow> world \<Rightarrow> world" where
  "init dut w =
     (let w1 = gpioSetMode (io_SCLK dut) PI_OUTPUT w;
          w2 = gpioSetMode (io_MOSI dut) PI_OUTPUT w1;
          w3 = gpioSetMode (io_CS dut) PI_OUTPUT w2;
          w4 = gpioSetMode (io_WP dut) PI_OUTPUT w3;
          w5 = gpioSetMode (io_MISO dut) PI_INPUT w4;
          w6 = gpioWrite (io_SCLK dut) False w5;
          w7 = gpioWrite (io_MOSI dut) False w6;
          w8 = gpioWrite (io_MISO dut) False w7;
          w9 = stop dut w8
      in setWriteProtect dut True w9)"

text \<open>The constructor: the timing quanta start at 0 (full speed), then \<open>init\<close> runs.\<close>

definition new_hwSPI :: "int \<Rightarrow> int \<Rightarrow> int \<Rightarrow> int \<Rightarrow> int \<Rightarrow> world \<Rightarrow> hwSPI \<times> world" where
  "new_hwSPI SCLK MOSI MISO CS WP w =
     (let dut = \<lparr>io_SCLK = SCLK, io_MOSI = MOSI, io_MISO = MISO, io_CS = CS, io_WP = WP,
                  wait_clk = 0, wait_byte = 0, wait_bit = 0\<rparr>
      in (dut, init dut w))"

text \<open>\<open>readJedecId\<close> returns its result flag, the identity it filled in, and the world.\<close>

definition readJedecId :: "hwSPI \<Rightarrow> ChipId \<Rightarrow> world \<Rightarrow> bool \<times> ChipId \<times> world" where
  "readJedecId dut cid w =
     (let w1 = start dut w;
          w2 = tx_byte dut READ_JEDEC_ID w1;
          (m, w3) = rx_byte dut w2;
          (t, w4) = rx_byte dut w3;
          (c, w5) = rx_byte dut w4;
          w6 = stop dut w5
      in (True, cid\<lparr>manufacturer := m, memoryType := t, capacity := c\<rparr>, w6))"

definition readId :: "hwSPI \<Rightarrow> ChipId \<Rightarrow> world \<Rightarrow> bool \<times> ChipId \<times> world" where
  "readId dut cid w = readJedecId dut cid w"

section \<open>Session orchestration (namespace splasher)\<close>

text \<open>
  The timing argument every operation passes:
  \<open>dev.KHz == 0 ? 0 : static_cast<unsigned int>(dev.KHz)\<close>.
\<close>

definition khz_arg :: "Device \<Rightarrow> uint" where
  "khz_arg dev = (if KHz dev = 0 then 0 else word_of_int (KHz dev))"

text \<open>
  \<open>initRead\<close> acts only on a transport that is an \<open>hwSPI\<close> (the \<open>dynamic_cast\<close>); it
  returns the device, the transport (its timing is set in place) and the world.
\<close>

definition initRead :: "Device \<Rightarrow> FlashInterface \<Rightarrow> world \<Rightarrow> Device \<times> FlashInterface \<times> world" where
  "initRead dev hw w =
     (case hw of
        HwSPI spi \<Rightarrow>
          (let spi1 = setTiming spi (khz_arg dev);
               (ok, cid, w1) = readId spi1 (jedecId dev) w
           in (dev\<lparr>jedecId := cid, jedecValid := ok\<rparr>, HwSPI spi1, w1))
      | _ \<Rightarrow> (dev, hw, w))"

definition initWrite :: "Device \<Rightarrow> FlashInterface \<Rightarrow> world \<Rightarrow> world" where
  "initWrite dev hw w =
     (case hw of
        HwSPI spi \<Rightarrow> setWriteProtect spi False w
      | _ \<Rightarrow> w)"

text \<open>
  The pairing test the three operations start with:
  \<open>dev.interface != IFACE::SPI || dev.protocol != PROT::S25\<close>.
\<close>

definition unsupported :: "Device \<Rightarrow> bool" where
  "unsupported dev = (interface dev \<noteq> SPI \<or> protocol dev \<noteq> S25)"

text \<open>The public identify: \<open>bool splasher::readJedecId(Device &dev)\<close>.\<close>

definition splasher_readJedecId :: "Device \<Rightarrow> world \<Rightarrow> bool \<times> Device \<times> world" where
  "splasher_readJedecId dev w =
     (if interface dev \<noteq> SPI then (False, dev, w)
      else
        (let (dut0, w1) = new_hwSPI SPI_SCLK SPI_MOSI SPI_MISO SPI_CS SPI_WP w;
             dut = setTiming dut0 (khz_arg dev);
             (ok, cid, w2) = readJedecId dut (jedecId dev) w1
         in (ok, dev\<lparr>jedecId := cid, jedecValid := ok\<rparr>, w2)))"

section \<open>Buffered file (class BinFile, filemanager)\<close>

text \<open>
  The stream behind a \<open>BinFile\<close> is \<open>file_in\<close>, the bytes not yet read (mode 'r'), and
  \<open>file_out\<close>, the bytes written so far (mode 'w'). \<open>byteArrayPtr\<close> is the RAM buffer,
  indexed from 0; the class keeps \<open>byteArrayPos \<le> MAX_RAM_BYTES\<close>, so the
  \<open>unsigned int\<close> counters never wrap and are natural numbers here.
\<close>

definition MAX_RAM_BYTES :: nat where "MAX_RAM_BYTES = 10485760"

record BinFile =
  filename :: string
  readMode :: bool
  byteArrayPtr :: "nat \<Rightarrow> byte"
  byteArrayPos :: nat
  byteArrayLen :: nat
  file_in :: "byte list"
  file_out :: "byte list"

text \<open>
  The constructor, for a file that opens: \<open>stored\<close> is what the file holds on disk and
  \<open>ram\<close> the contents of the fresh buffer. An unknown mode exits the program (\<open>None\<close>).
\<close>

definition new_BinFile :: "string \<Rightarrow> char \<Rightarrow> byte list \<Rightarrow> (nat \<Rightarrow> byte) \<Rightarrow> BinFile option" where
  "new_BinFile inptFN mode stored ram =
     (if mode = CHR ''r'' then
        Some \<lparr>filename = inptFN, readMode = True, byteArrayPtr = ram, byteArrayPos = 0,
              byteArrayLen = 0, file_in = stored, file_out = []\<rparr>
      else if mode = CHR ''w'' then
        Some \<lparr>filename = inptFN, readMode = False, byteArrayPtr = ram, byteArrayPos = 0,
              byteArrayLen = 0, file_in = [], file_out = []\<rparr>
      else None)"

definition isReadMode :: "BinFile \<Rightarrow> bool" where
  "isReadMode f = readMode f"

text \<open>
  \<open>flushArrayToFile\<close> always returns 0; only its effect on the file is kept. The stream of
  a file opened with mode 'r' is input-only, so \<open>file.write\<close> fails there and nothing reaches
  the file; \<open>byteArrayPos\<close> is reset all the same.
\<close>

definition flushArrayToFile :: "BinFile \<Rightarrow> BinFile" where
  "flushArrayToFile f =
     (if byteArrayPos f = 0 then f
      else if readMode f then f\<lparr>byteArrayPos := 0\<rparr>
      else f\<lparr>file_out := file_out f @ map (byteArrayPtr f) [0..<byteArrayPos f],
              byteArrayPos := 0\<rparr>)"

definition pushByteToArray :: "BinFile \<Rightarrow> byte \<Rightarrow> BinFile" where
  "pushByteToArray f b =
     (let f1 = (if byteArrayPos f = MAX_RAM_BYTES then flushArrayToFile f else f)
      in f1\<lparr>byteArrayPtr := (byteArrayPtr f1)(byteArrayPos f1 := b),
              byteArrayPos := byteArrayPos f1 + 1\<rparr>)"

text \<open>\<open>file.read(byteArrayPtr, MAX_RAM_BYTES)\<close> followed by the two assignments.\<close>

definition refill :: "BinFile \<Rightarrow> BinFile" where
  "refill f =
     (let got = take MAX_RAM_BYTES (file_in f)
      in f\<lparr>byteArrayPtr := (\<lambda>i. if i < length got then got ! i else byteArrayPtr f i),
             file_in := drop MAX_RAM_BYTES (file_in f),
             byteArrayLen := length got,
             byteArrayPos := 0\<rparr>)"

text \<open>\<open>pullByteFromFile\<close>: \<open>Some b\<close> is \<open>true\<close> with the byte set, \<open>None\<close> is \<open>false\<close>.\<close>

definition pullByteFromFile :: "BinFile \<Rightarrow> byte option \<times> BinFile" where
  "pullByteFromFile f =
     (if \<not> readMode f then (None, f)
      else
        (let f1 = (if byteArrayLen f \<le> byteArrayPos f then refill f else f)
         in if byteArrayLen f \<le> byteArrayPos f \<and> byteArrayLen f1 = 0 then (None, f1)
            else (Some (byteArrayPtr f1 (byteArrayPos f1)),
                  f1\<lparr>byteArrayPos := byteArrayPos f1 + 1\<rparr>)))"

text \<open>
  The destructor: it flushes the buffer of a file opened for writing (closing the stream and
  freeing the buffers change nothing that is kept here).
\<close>

definition delete_BinFile :: "BinFile \<Rightarrow> BinFile" where
  "delete_BinFile f = (if \<not> readMode f \<and> byteArrayPos f \<noteq> 0 then flushArrayToFile f else f)"

text \<open>
  For a file opened for writing: everything pushed to it so far, in order, that is what is
  already in the stream followed by what is still in the buffer. It is what the file holds
  once the destructor has run (lemma \<open>sink_delete_BinFile\<close>).
\<close>

definition sink :: "BinFile \<Rightarrow> byte list" where
  "sink f = file_out f @ map (byteArrayPtr f) [0..<byteArrayPos f]"

section \<open>Flash command layer\<close>

text \<open>The three address bytes, as passed to \<open>tx_byte\<close> (converted to \<open>char\<close>).\<close>

definition addr_hi :: "ulong \<Rightarrow> byte" where
  "addr_hi a = ucast (drop_bit 16 a AND 0xFF)"

definition addr_mid :: "ulong \<Rightarrow> byte" where
  "addr_mid a = ucast (drop_bit 8 a AND 0xFF)"

definition addr_lo :: "ulong \<Rightarrow> byte" where
  "addr_lo a = ucast (a AND 0xFF)"

text \<open>The read loop of \<open>dumpFlashToFile\<close>: \<open>cByte\<close> runs from 1 while below \<open>maxByte\<close>.\<close>

function dump_loop :: "hwSPI \<Rightarrow> ulong \<Rightarrow> ulong \<Rightarrow> BinFile \<Rightarrow> world \<Rightarrow> BinFile \<times> world" where
  "dump_loop dut maxByte cByte file w =
     (if cByte < maxByte then
        (let (b, w1) = readByte dut w;
             file1 = pushByteToArray file b
         in dump_loop dut maxByte (cByte + 1) file1 w1)
      else (file, w))"
  by pat_completeness auto
termination
proof (relation "measure (\<lambda>(dut, maxByte, cByte, file, w). unat maxByte - unat cByte)")
  show "wf (measure (\<lambda>(dut, maxByte, cByte, file, w). unat maxByte - unat cByte))"
    by simp
next
  fix dut :: hwSPI and maxByte cByte :: ulong and f :: BinFile and w :: world
    and x :: "byte \<times> world" and xa :: byte and y :: world and xb :: BinFile
  assume lt: "cByte < maxByte"
  have below: "unat cByte < unat maxByte"
    using lt by (simp add: word_less_nat_alt)
  moreover have "unat maxByte < 2 ^ LENGTH(64)"
    by (rule unsigned_less)
  ultimately have "Suc (unat cByte) < 2 ^ LENGTH(64)"
    by linarith
  then have "unat cByte + unat (1 :: ulong) < 2 ^ LENGTH(64)"
    by simp
  then have "unat (cByte + 1) = unat cByte + unat (1 :: ulong)"
    by (simp only: unat_add_lem)
  then have "unat (cByte + 1) = Suc (unat cByte)"
    by simp
  then show "((dut, maxByte, cByte + 1, xb, y), dut, maxByte, cByte, f, w)
      \<in> measure (\<lambda>(dut, maxByte, cByte, file, w). unat maxByte - unat cByte)"
    using below by simp
qed

declare dump_loop.simps [simp del]

definition dumpFlashToFile :: "Device \<Rightarrow> BinFile \<Rightarrow> world \<Rightarrow> Device \<times> BinFile \<times> world" where
  "dumpFlashToFile dev file w =
     (if unsupported dev then
        (dev, file,
         report ''Dump only supported for SPI/25-series. DSPI, QSPI, I2C not yet implemented.'' w)
      else
        (let (dut0, w1) = new_hwSPI SPI_SCLK SPI_MOSI SPI_MISO SPI_CS SPI_WP w;
             dut1 = setTiming dut0 (khz_arg dev);
             (dev1, hw1, w2) = initRead dev (HwSPI dut1) w1;
             dut = (case hw1 of HwSPI spi \<Rightarrow> spi | _ \<Rightarrow> dut1);
             w3 = start dut w2;
             w4 = tx_byte dut READ w3;
             w5 = tx_byte dut (addr_hi (offset dev1)) w4;
             w6 = tx_byte dut (addr_mid (offset dev1)) w5;
             w7 = tx_byte dut (addr_lo (offset dev1)) w6;
             maxByte = bytes dev1 + 1;
             (file1, w8) = dump_loop dut maxByte 1 file w7;
             w9 = stop dut w8
         in (dev1, file1, w9)))"

text \<open>
  \<open>s25_waitBusy\<close> polls the status register until the write-in-progress bit is clear. The
  loop has no bound: \<open>None\<close> is the run that never returns.
\<close>

partial_function (option) s25_waitBusy :: "hwSPI \<Rightarrow> world \<Rightarrow> world option" where
  "s25_waitBusy dut w =
     (let w1 = start dut w;
          w2 = tx_byte dut READ_STATUS w1;
          r = rx_byte dut w2;
          w4 = stop dut (snd r)
      in if fst r AND 1 = 0 then Some w4 else s25_waitBusy dut w4)"

text \<open>The data loop of one page program: stops at \<open>chunk\<close> bytes or at end of file.\<close>

function page_loop :: "hwSPI \<Rightarrow> uint \<Rightarrow> uint \<Rightarrow> BinFile \<Rightarrow> world \<Rightarrow> BinFile \<times> world" where
  "page_loop dut chunk i file w =
     (if i < chunk then
        (case pullByteFromFile file of
           (None, file1) \<Rightarrow> (file1, w)
         | (Some b, file1) \<Rightarrow> page_loop dut chunk (i + 1) file1 (tx_byte dut b w))
      else (file, w))"
  by pat_completeness auto
termination
proof (relation "measure (\<lambda>(dut, chunk, i, file, w). unat chunk - unat i)")
  show "wf (measure (\<lambda>(dut, chunk, i, file, w). unat chunk - unat i))"
    by simp
next
  fix dut :: hwSPI and chunk i :: uint and f :: BinFile and w :: world
    and x :: "byte option \<times> BinFile" and x1 :: "byte option" and x2 :: BinFile and x2a :: byte
  assume lt: "i < chunk"
  have below: "unat i < unat chunk"
    using lt by (simp add: word_less_nat_alt)
  moreover have "unat chunk < 2 ^ LENGTH(32)"
    by (rule unsigned_less)
  ultimately have "Suc (unat i) < 2 ^ LENGTH(32)"
    by linarith
  then have "unat i + unat (1 :: uint) < 2 ^ LENGTH(32)"
    by simp
  then have "unat (i + 1) = unat i + unat (1 :: uint)"
    by (simp only: unat_add_lem)
  then have "unat (i + 1) = Suc (unat i)"
    by simp
  then show "((dut, chunk, i + 1, x2, tx_byte dut x2a w), dut, chunk, i, f, w)
      \<in> measure (\<lambda>(dut, chunk, i, file, w). unat chunk - unat i)"
    using below by simp
qed

declare page_loop.simps [simp del]

text \<open>The page loop of \<open>writeFileToFlash\<close>; it contains the unbounded busy poll.\<close>

partial_function (option) write_loop ::
  "hwSPI \<Rightarrow> ulong \<Rightarrow> ulong \<Rightarrow> BinFile \<Rightarrow> world \<Rightarrow> (BinFile \<times> world) option" where
  "write_loop dut addr remaining file w =
     (if 0 < remaining then
        (let chunk = (ucast (if ucast S25_PAGE_SIZE < remaining then ucast S25_PAGE_SIZE
                             else remaining) :: uint);
             w1 = start dut w;
             w2 = tx_byte dut WRITE_ENABLE w1;
             w3 = stop dut w2;
             w4 = start dut w3;
             w5 = tx_byte dut PAGE_PROGRAM w4;
             w6 = tx_byte dut (addr_hi addr) w5;
             w7 = tx_byte dut (addr_mid addr) w6;
             w8 = tx_byte dut (addr_lo addr) w7;
             r = page_loop dut chunk 0 file w8;
             w9 = stop dut (snd r)
         in Option.bind (s25_waitBusy dut w9)
              (\<lambda>w10. write_loop dut (addr + ucast chunk) (remaining - ucast chunk) (fst r) w10))
      else Some (file, w))"

definition writeFileToFlash :: "Device \<Rightarrow> BinFile \<Rightarrow> world \<Rightarrow> (BinFile \<times> world) option" where
  "writeFileToFlash dev file w =
     (if unsupported dev then
        Some (file,
          report ''Write only supported for SPI/25-series. DSPI, QSPI, I2C not yet implemented.'' w)
      else if \<not> isReadMode file then
        Some (file, report ''Write requires a file opened for reading.'' w)
      else
        (let (dut0, w1) = new_hwSPI SPI_SCLK SPI_MOSI SPI_MISO SPI_CS SPI_WP w;
             dut = setTiming dut0 (khz_arg dev);
             w2 = initWrite dev (HwSPI dut) w1
         in write_loop dut (offset dev) (bytes dev) file w2))"

text \<open>The sector loop of \<open>eraseFlash\<close>; \<open>endAddr\<close> is the source's \<open>end\<close>.\<close>

partial_function (option) erase_loop :: "hwSPI \<Rightarrow> ulong \<Rightarrow> ulong \<Rightarrow> world \<Rightarrow> world option" where
  "erase_loop dut endAddr addr w =
     (if addr < endAddr then
        (let w1 = start dut w;
             w2 = tx_byte dut WRITE_ENABLE w1;
             w3 = stop dut w2;
             w4 = start dut w3;
             w5 = tx_byte dut SECTOR_ERASE_4K w4;
             w6 = tx_byte dut (addr_hi addr) w5;
             w7 = tx_byte dut (addr_mid addr) w6;
             w8 = tx_byte dut (addr_lo addr) w7;
             w9 = stop dut w8
         in Option.bind (s25_waitBusy dut w9) (\<lambda>w10. erase_loop dut endAddr (addr + 4096) w10))
      else Some w)"

definition eraseFlash :: "Device \<Rightarrow> ulong \<Rightarrow> world \<Rightarrow> world option" where
  "eraseFlash dev byteCount w =
     (if unsupported dev then
        Some (report ''Erase only supported for SPI/25-series. DSPI, QSPI, I2C not yet implemented.'' w)
      else
        (let (dut0, w1) = new_hwSPI SPI_SCLK SPI_MOSI SPI_MISO SPI_CS SPI_WP w;
             dut = setTiming dut0 (khz_arg dev);
             w2 = initWrite dev (HwSPI dut) w1;
             w3 = start dut w2;
             w4 = tx_byte dut WRITE_ENABLE w3;
             w5 = stop dut w4;
             w6 = start dut w5
         in if byteCount = 0 then Some (stop dut (tx_byte dut CHIP_ERASE w6))
            else map_option (stop dut) (erase_loop dut (offset dev + byteCount) (offset dev) w6)))"

section \<open>Rate argument (convertKHz and its use in main, src/main.cpp)\<close>











section \<open>Observations and test inputs\<close>

text \<open>
  One clock cycle of \<open>tx_byte\<close> and \<open>rx_byte\<close> after the data line is handled: the bit
  delay, clock high, half period, clock low, half period.
\<close>

definition clock_pulse :: "hwSPI \<Rightarrow> world \<Rightarrow> world" where
  "clock_pulse dut w =
     delay_nz (wait_clk dut) (gpioWrite (io_SCLK dut) False
       (delay_nz (wait_clk dut) (gpioWrite (io_SCLK dut) True
         (delay_nz (wait_bit dut) w))))"

text \<open>
  Transaction framing on the call log: \<open>frames_ok opn cs\<close> holds when no \<open>start\<close> in
  \<open>cs\<close> happens while a transaction is open (\<open>opn\<close> says whether one is open initially).
\<close>

fun frames_ok :: "bool \<Rightarrow> bus_op list \<Rightarrow> bool" where
  "frames_ok opn [] = True"
| "frames_ok opn (Start # cs) = (\<not> opn \<and> frames_ok True cs)"
| "frames_ok opn (Stop # cs) = frames_ok False cs"
| "frames_ok opn (Tx b # cs) = frames_ok opn cs"
| "frames_ok opn (Rx b # cs) = frames_ok opn cs"

text \<open>
  Concrete inputs: a line that always reads low (no chip answering, status never busy), a
  world with no history on such a line, the \<open>Device\<close> the default constructor builds (its
  identity bytes taken as 0), and an input file holding the single byte 0xAB.
\<close>

definition quiet :: "gpio_event list \<Rightarrow> int \<Rightarrow> bool" where
  "quiet h p = False"

definition idle_world :: world where
  "idle_world = \<lparr>pins = [], calls = [], cerr = [], input = quiet\<rparr>"

definition default_Device :: Device where
  "default_Device = \<lparr>interface = SPI, protocol = S25, KHz = 100, bytes = 0, offset = 0,
     jedecId = \<lparr>manufacturer = 0, memoryType = 0, capacity = 0\<rparr>, jedecValid = False\<rparr>"

definition one_byte_file :: BinFile where
  "one_byte_file = \<lparr>filename = ''in.bin'', readMode = True, byteArrayPtr = (\<lambda>i. 0),
     byteArrayPos = 0, byteArrayLen = 0, file_in = [0xAB], file_out = []\<rparr>"

definition empty_out_file :: BinFile where
  "empty_out_file = \<lparr>filename = ''out.bin'', readMode = False, byteArrayPtr = (\<lambda>i. 0),
     byteArrayPos = 0, byteArrayLen = 0, file_in = [], file_out = []\<rparr>"


definition i2c_Device :: Device where
  "i2c_Device = default_Device\<lparr>interface := I2C\<rparr>"

text \<open>A transport on the default pinout, as the constructor leaves it.\<close>

definition pinout_SPI :: hwSPI where
  "pinout_SPI = \<lparr>io_SCLK = SPI_SCLK, io_MOSI = SPI_MOSI, io_MISO = SPI_MISO, io_CS = SPI_CS,
     io_WP = SPI_WP, wait_clk = 0, wait_byte = 0, wait_bit = 0\<rparr>"

text \<open>
  The levels written to a pin and the levels read from a pin, in order, in a pin history.
\<close>

fun driven :: "int \<Rightarrow> gpio_event list \<Rightarrow> bool list" where
  "driven p [] = []"
| "driven p (Write q l # h) = (if q = p then l # driven p h else driven p h)"
| "driven p (e # h) = driven p h"

fun sampled :: "int \<Rightarrow> gpio_event list \<Rightarrow> bool list" where
  "sampled p [] = []"
| "sampled p (Read q l # h) = (if q = p then l # sampled p h else sampled p h)"
| "sampled p (e # h) = sampled p h"

text \<open>
  Two loop-back wirings of data-out to data-in. On the \<open>tied\<close> line data-in shows the level
  data-out holds now, that is the level written last (low before the first write).
\<close>

definition tied :: "int \<Rightarrow> int \<Rightarrow> gpio_event list \<Rightarrow> int \<Rightarrow> bool" where
  "tied mosi miso h p = (p = miso \<and> driven mosi h \<noteq> [] \<and> last (driven mosi h))"

text \<open>
  The other wiring goes through an 8-stage shift register that takes in the level of data-out
  each time the clock is written high (the transport writes the clock high only in the pulses
  of \<open>tx_byte\<close> and \<open>rx_byte\<close>, each of which writes it low again, and \<open>init\<close> writes it
  low: every such write is a rising edge). \<open>clocked sclk mosi lvl h\<close> lists the levels taken
  in over the history \<open>h\<close>, data-out being at \<open>lvl\<close> before it, and \<open>level_after\<close> is the
  level of data-out at its end. Data-in shows the last stage: the level taken in at the
  eighth-last clock pulse (low while fewer than eight have happened).
\<close>

fun clocked :: "int \<Rightarrow> int \<Rightarrow> bool \<Rightarrow> gpio_event list \<Rightarrow> bool list" where
  "clocked sclk mosi lvl [] = []"
| "clocked sclk mosi lvl (Write q l # h) =
     (if q = mosi then clocked sclk mosi l h
      else if q = sclk \<and> l then lvl # clocked sclk mosi lvl h
      else clocked sclk mosi lvl h)"
| "clocked sclk mosi lvl (e # h) = clocked sclk mosi lvl h"

fun level_after :: "int \<Rightarrow> bool \<Rightarrow> gpio_event list \<Rightarrow> bool" where
  "level_after mosi lvl [] = lvl"
| "level_after mosi lvl (Write q l # h) =
     (if q = mosi then level_after mosi l h else level_after mosi lvl h)"
| "level_after mosi lvl (e # h) = level_after mosi lvl h"

definition shift_register :: "int \<Rightarrow> int \<Rightarrow> int \<Rightarrow> gpio_event list \<Rightarrow> int \<Rightarrow> bool" where
  "shift_register sclk mosi miso h p =
     (p = miso \<and> 8 \<le> length (clocked sclk mosi False h)
      \<and> clocked sclk mosi False h ! (length (clocked sclk mosi False h) - 8))"

definition tied_world :: world where
  "tied_world = idle_world\<lparr>input := tied SPI_MOSI SPI_MISO\<rparr>"

definition shift_world :: world where
  "shift_world = idle_world\<lparr>input := shift_register SPI_SCLK SPI_MOSI SPI_MISO\<rparr>"

text \<open>The constructor call every operation makes, on the default pinout.\<close>

definition power_on :: "world \<Rightarrow> hwSPI \<times> world" where
  "power_on w = new_hwSPI SPI_SCLK SPI_MOSI SPI_MISO SPI_CS SPI_WP w"

text \<open>
  One accumulator step of \<open>rx_byte\<close> (\<open>data << 1\<close>, then \<open>| 0x01\<close> when the sample is high),
  and the bits of a byte from bit 7 down to bit 0.
\<close>

definition shift_in :: "byte \<Rightarrow> bool \<Rightarrow> byte" where
  "shift_in data cBit = (if cBit then push_bit 1 data OR 1 else push_bit 1 data)"

definition msb_first :: "byte \<Rightarrow> bool list" where
  "msb_first b = map (bit b) [7, 6, 5, 4, 3, 2, 1, 0]"

section \<open>Word arithmetic\<close>


section \<open>What each operation leaves unchanged, and what it logs\<close>

lemma gpioSetMode_frame [simp]:
  "calls (gpioSetMode p m w) = calls w"
  "cerr (gpioSetMode p m w) = cerr w"
  "input (gpioSetMode p m w) = input w"
  by (simp_all add: gpioSetMode_def)

lemma gpioWrite_frame [simp]:
  "calls (gpioWrite p l w) = calls w"
  "cerr (gpioWrite p l w) = cerr w"
  "input (gpioWrite p l w) = input w"
  by (simp_all add: gpioWrite_def)

lemma gpioRead_frame [simp]:
  "calls (snd (gpioRead p w)) = calls w"
  "cerr (snd (gpioRead p w)) = cerr w"
  "input (snd (gpioRead p w)) = input w"
  by (simp_all add: gpioRead_def Let_def)

lemma delay_nz_frame [simp]:
  "calls (delay_nz n w) = calls w"
  "cerr (delay_nz n w) = cerr w"
  "input (delay_nz n w) = input w"
  by (simp_all add: delay_nz_def gpioDelay_def)

lemma called_frame [simp]:
  "calls (called c w) = calls w @ [c]"
  "cerr (called c w) = cerr w"
  "input (called c w) = input w"
  "pins (called c w) = pins w"
  by (simp_all add: called_def)

lemma report_frame [simp]:
  "calls (report m w) = calls w"
  "cerr (report m w) = cerr w @ [m]"
  "input (report m w) = input w"
  "pins (report m w) = pins w"
  by (simp_all add: report_def)

lemma tx_loop_frame [simp]:
  "calls (tx_loop dut b i w) = calls w"
  "cerr (tx_loop dut b i w) = cerr w"
  "input (tx_loop dut b i w) = input w"
  by (induction dut b i w rule: tx_loop.induct; subst tx_loop.simps; simp add: Let_def)+

lemma tx_byte_frame [simp]:
  "calls (tx_byte dut b w) = calls w @ [Tx b]"
  "cerr (tx_byte dut b w) = cerr w"
  "input (tx_byte dut b w) = input w"
  by (simp_all add: tx_byte_def)

lemma rx_loop_frame [simp]:
  "calls (snd (rx_loop dut i d w)) = calls w"
  "cerr (snd (rx_loop dut i d w)) = cerr w"
  "input (snd (rx_loop dut i d w)) = input w"
  by (induction dut i d w rule: rx_loop.induct; subst rx_loop.simps; simp add: Let_def split_def)+

lemma rx_byte_frame [simp]:
  "calls (snd (rx_byte dut w)) = calls w @ [Rx (fst (rx_byte dut w))]"
  "cerr (snd (rx_byte dut w)) = cerr w"
  "input (snd (rx_byte dut w)) = input w"
  by (simp_all add: rx_byte_def Let_def split_def)

lemma start_frame [simp]:
  "calls (start dut w) = calls w @ [Start]"
  "cerr (start dut w) = cerr w"
  "input (start dut w) = input w"
  by (simp_all add: start_def)

lemma stop_frame [simp]:
  "calls (stop dut w) = calls w @ [Stop]"
  "cerr (stop dut w) = cerr w"
  "input (stop dut w) = input w"
  by (simp_all add: stop_def)

lemma setWriteProtect_frame [simp]:
  "calls (setWriteProtect dut e w) = calls w"
  "cerr (setWriteProtect dut e w) = cerr w"
  "input (setWriteProtect dut e w) = input w"
  by (simp_all add: setWriteProtect_def)

lemma init_frame [simp]:
  "calls (init dut w) = calls w @ [Stop]"
  "cerr (init dut w) = cerr w"
  "input (init dut w) = input w"
  by (simp_all add: init_def Let_def)

lemma new_hwSPI_frame [simp]:
  "calls (snd (new_hwSPI a b c d e w)) = calls w @ [Stop]"
  "cerr (snd (new_hwSPI a b c d e w)) = cerr w"
  "input (snd (new_hwSPI a b c d e w)) = input w"
  by (simp_all add: new_hwSPI_def Let_def)

lemma readJedecId_calls:
  "\<exists>m t c w'. readJedecId dut cid w = (True, cid\<lparr>manufacturer := m, memoryType := t, capacity := c\<rparr>, w')
     \<and> calls w' = calls w @ [Start, Tx READ_JEDEC_ID, Rx m, Rx t, Rx c, Stop]
     \<and> cerr w' = cerr w \<and> input w' = input w"
  by (simp add: readJedecId_def Let_def split_def)

text \<open>The public identify passes the same constant on.\<close>

lemma splasher_readJedecId_true:
  "interface dev = SPI \<Longrightarrow> fst (splasher_readJedecId dev w)"
  by (simp add: splasher_readJedecId_def readJedecId_def Let_def split_def)

lemma clock_pulse_frame [simp]:
  "calls (clock_pulse dut w) = calls w"
  "cerr (clock_pulse dut w) = cerr w"
  "input (clock_pulse dut w) = input w"
  by (simp_all add: clock_pulse_def)

lemma rx_loop_step:
  "i < 8 \<Longrightarrow> rx_loop dut i d w =
     rx_loop dut (Suc i)
       (if fst (gpioRead (io_MISO dut) w) then push_bit 1 d OR 1 else push_bit 1 d)
       (clock_pulse dut (snd (gpioRead (io_MISO dut) w)))"
  by (subst rx_loop.simps) (simp add: Let_def split_def clock_pulse_def)

lemma rx_loop_done:
  "\<not> i < 8 \<Longrightarrow> rx_loop dut i d w = (d, w)"
  by (subst rx_loop.simps) simp

lemma tx_loop_step:
  "0 \<le> i \<Longrightarrow> tx_loop dut b i w =
     tx_loop dut b (i - 1)
       (clock_pulse dut (gpioWrite (io_MOSI dut) (drop_bit (nat i) b AND 1 \<noteq> 0) w))"
  by (subst tx_loop.simps) (simp add: Let_def clock_pulse_def)

lemma tx_loop_done:
  "\<not> 0 \<le> i \<Longrightarrow> tx_loop dut b i w = w"
  by (subst tx_loop.simps) simp

lemma rx_loop_quiet:
  "input w = quiet \<Longrightarrow> fst (rx_loop dut i d w) = push_bit (8 - i) d"
proof (induction "8 - i" arbitrary: i d w)
  case 0
  then show ?case by (simp add: rx_loop_done)
next
  case (Suc n)
  then have lt: "i < 8" and n: "n = 8 - Suc i" by simp_all
  have rd: "fst (gpioRead (io_MISO dut) w) = False"
    using Suc.prems by (simp add: gpioRead_def Let_def quiet_def)
  have "fst (rx_loop dut i d w)
      = fst (rx_loop dut (Suc i) (push_bit 1 d) (clock_pulse dut (snd (gpioRead (io_MISO dut) w))))"
    by (simp add: rx_loop_step [OF lt] rd)
  also have "\<dots> = push_bit (8 - Suc i) (push_bit 1 d)"
    using Suc.prems by (intro Suc.hyps(1) [OF n]) simp
  also have "\<dots> = push_bit (8 - i) d"
  proof -
    have e: "8 - i = Suc (8 - Suc i)" using lt by simp
    show ?thesis by (simp only: e push_bit_Suc) simp
  qed
  finally show ?case .
qed

lemma rx_byte_quiet [simp]:
  "input w = quiet \<Longrightarrow> fst (rx_byte dut w) = 0"
  by (simp add: rx_byte_def Let_def split_def rx_loop_quiet)

lemma s25_waitBusy_quiet:
  assumes "input w = quiet"
  shows "s25_waitBusy dut w = Some (stop dut (snd (rx_byte dut (tx_byte dut READ_STATUS (start dut w)))))"
  using assms by (subst s25_waitBusy.simps) (simp add: Let_def)

lemma initWrite_frame [simp]:
  "calls (initWrite dev hw w) = calls w"
  "cerr (initWrite dev hw w) = cerr w"
  "input (initWrite dev hw w) = input w"
  by (simp_all add: initWrite_def split: FlashInterface.splits)

lemma erase_loop_step:
  "addr < endAddr \<Longrightarrow> erase_loop dut endAddr addr w =
     Option.bind
       (s25_waitBusy dut
         (stop dut (tx_byte dut (addr_lo addr) (tx_byte dut (addr_mid addr)
           (tx_byte dut (addr_hi addr) (tx_byte dut SECTOR_ERASE_4K
             (start dut (stop dut (tx_byte dut WRITE_ENABLE (start dut w))))))))))
       (erase_loop dut endAddr (addr + 4096))"
  by (subst erase_loop.simps) (simp add: Let_def)

lemma erase_loop_done:
  "\<not> addr < endAddr \<Longrightarrow> erase_loop dut endAddr addr w = Some w"
  by (subst erase_loop.simps) simp

lemma page_loop_step:
  "i < chunk \<Longrightarrow> page_loop dut chunk i file w =
     (case pullByteFromFile file of
        (None, file1) \<Rightarrow> (file1, w)
      | (Some b, file1) \<Rightarrow> page_loop dut chunk (i + 1) file1 (tx_byte dut b w))"
  by (subst page_loop.simps) simp

lemma page_loop_done:
  "\<not> i < chunk \<Longrightarrow> page_loop dut chunk i file w = (file, w)"
  by (subst page_loop.simps) simp

lemma write_loop_step:
  "0 < remaining \<Longrightarrow> write_loop dut addr remaining file w =
     Option.bind
       (s25_waitBusy dut (stop dut (snd (page_loop dut
           (ucast (if ucast S25_PAGE_SIZE < remaining then ucast S25_PAGE_SIZE else remaining)) 0 file
           (tx_byte dut (addr_lo addr) (tx_byte dut (addr_mid addr) (tx_byte dut (addr_hi addr)
             (tx_byte dut PAGE_PROGRAM (start dut (stop dut (tx_byte dut WRITE_ENABLE
               (start dut w))))))))))))
       (write_loop dut
          (addr + ucast (ucast (if ucast S25_PAGE_SIZE < remaining then ucast S25_PAGE_SIZE
                                else remaining) :: uint))
          (remaining - ucast (ucast (if ucast S25_PAGE_SIZE < remaining then ucast S25_PAGE_SIZE
                                     else remaining) :: uint))
          (fst (page_loop dut
           (ucast (if ucast S25_PAGE_SIZE < remaining then ucast S25_PAGE_SIZE else remaining)) 0 file
           (tx_byte dut (addr_lo addr) (tx_byte dut (addr_mid addr) (tx_byte dut (addr_hi addr)
             (tx_byte dut PAGE_PROGRAM (start dut (stop dut (tx_byte dut WRITE_ENABLE
               (start dut w)))))))))))"
  by (subst write_loop.simps) (simp add: Let_def)

lemma write_loop_done:
  "\<not> 0 < remaining \<Longrightarrow> write_loop dut addr remaining file w = Some (file, w)"
  by (subst write_loop.simps) simp

lemma page_loop_frame [simp]:
  "cerr (snd (page_loop dut chunk i f w)) = cerr w"
  "input (snd (page_loop dut chunk i f w)) = input w"
  by (induction dut chunk i f w rule: page_loop.induct; subst page_loop.simps;
      simp split: prod.splits option.splits)+


lemma sink_delete_BinFile:
  "\<not> readMode f \<Longrightarrow> file_out (delete_BinFile f) = sink f"
  by (simp add: delete_BinFile_def flushArrayToFile_def sink_def)




lemma readByte_frame [simp]:
  "calls (snd (readByte dut w)) = calls w @ [Rx (fst (readByte dut w))]"
  "cerr (snd (readByte dut w)) = cerr w"
  "input (snd (readByte dut w)) = input w"
  by (simp_all add: readByte_def)



section \<open>Address bytes\<close>






section \<open>Levels on the data lines\<close>

lemma driven_append [simp]: "driven p (xs @ ys) = driven p xs @ driven p ys"
  by (induction p xs rule: driven.induct) simp_all

lemma sampled_append [simp]: "sampled p (xs @ ys) = sampled p xs @ sampled p ys"
  by (induction p xs rule: sampled.induct) simp_all

lemma pins_gpioWrite [simp]: "pins (gpioWrite q l w) = pins w @ [Write q l]"
  by (simp add: gpioWrite_def)

lemma pins_gpioRead [simp]:
  "pins (snd (gpioRead q w)) = pins w @ [Read q (fst (gpioRead q w))]"
  by (simp add: gpioRead_def Let_def)

lemma fst_gpioRead: "fst (gpioRead q w) = input w (pins w) q"
  by (simp add: gpioRead_def Let_def)

lemma delay_nz_lines [simp]:
  "driven p (pins (delay_nz n w)) = driven p (pins w)"
  "sampled p (pins (delay_nz n w)) = sampled p (pins w)"
  by (simp_all add: delay_nz_def gpioDelay_def)

lemma clock_pulse_lines [simp]:
  "io_SCLK dut \<noteq> p \<Longrightarrow> driven p (pins (clock_pulse dut w)) = driven p (pins w)"
  "sampled p (pins (clock_pulse dut w)) = sampled p (pins w)"
  by (simp_all add: clock_pulse_def)

lemma sent_level: "(drop_bit n b AND 1 \<noteq> 0) = bit b n" for b :: byte
  by (simp add: and_one_eq bit_iff_odd_drop_bit odd_iff_mod_2_eq_one)

lemma tx_loop_lines:
  assumes "io_SCLK dut \<noteq> io_MOSI dut"
  shows "driven (io_MOSI dut) (pins (tx_loop dut b i w))
           = driven (io_MOSI dut) (pins w) @ map (bit b) (rev [0..<nat (i + 1)])"
    and "sampled p (pins (tx_loop dut b i w)) = sampled p (pins w)"
proof -
  show "driven (io_MOSI dut) (pins (tx_loop dut b i w))
           = driven (io_MOSI dut) (pins w) @ map (bit b) (rev [0..<nat (i + 1)])"
  proof (induction "nat (i + 1)" arbitrary: i w)
    case 0
    then show ?case by (simp add: tx_loop_done)
  next
    case (Suc n)
    then have i: "0 \<le> i" and n: "n = nat (i - 1 + 1)" by simp_all
    have e: "nat (i + 1) = Suc (nat i)" using i by simp
    show ?case
      using assms by (simp add: tx_loop_step [OF i] Suc.hyps(1) [OF n] sent_level e)
  qed
  show "sampled p (pins (tx_loop dut b i w)) = sampled p (pins w)"
  proof (induction "nat (i + 1)" arbitrary: i w)
    case 0
    then show ?case by (simp add: tx_loop_done)
  next
    case (Suc n)
    then have i: "0 \<le> i" and n: "n = nat (i - 1 + 1)" by simp_all
    show ?case
      by (simp add: tx_loop_step [OF i] Suc.hyps(1) [OF n])
  qed
qed

lemma msb_first_upt: "map (bit b) (rev [0..<8]) = msb_first b"
  by (simp add: msb_first_def upt_rec numeral_eq_Suc)

lemma tx_byte_lines:
  assumes "io_SCLK dut \<noteq> io_MOSI dut"
  shows "driven (io_MOSI dut) (pins (tx_byte dut b w)) = driven (io_MOSI dut) (pins w) @ msb_first b"
    and "sampled p (pins (tx_byte dut b w)) = sampled p (pins w)"
  using assms by (simp_all add: tx_byte_def tx_loop_lines msb_first_upt del: upt_Suc)

lemma rx_loop_step':
  "i < 8 \<Longrightarrow> rx_loop dut i d w =
     rx_loop dut (Suc i) (shift_in d (input w (pins w) (io_MISO dut)))
       (clock_pulse dut (snd (gpioRead (io_MISO dut) w)))"
  by (simp add: rx_loop_step shift_in_def fst_gpioRead)

lemma clocked_append:
  "clocked s m l (xs @ ys) = clocked s m l xs @ clocked s m (level_after m l xs) ys"
  by (induction s m l xs rule: clocked.induct) simp_all

lemma level_after_append:
  "level_after m l (xs @ ys) = level_after m (level_after m l xs) ys"
  by (induction m l xs rule: level_after.induct) simp_all

lemma clocked_snoc [simp]:
  "clocked s m l (h @ [Write q x]) =
     clocked s m l h @ (if q \<noteq> m \<and> q = s \<and> x then [level_after m l h] else [])"
  "clocked s m l (h @ [Read q x]) = clocked s m l h"
  "clocked s m l (h @ [Delay n]) = clocked s m l h"
  "clocked s m l (h @ [SetMode q md]) = clocked s m l h"
  by (simp_all add: clocked_append)

lemma level_after_snoc [simp]:
  "level_after m l (h @ [Write q x]) = (if q = m then x else level_after m l h)"
  "level_after m l (h @ [Read q x]) = level_after m l h"
  "level_after m l (h @ [Delay n]) = level_after m l h"
  "level_after m l (h @ [SetMode q md]) = level_after m l h"
  by (simp_all add: level_after_append)

lemma delay_nz_clocked [simp]:
  "clocked s m l (pins (delay_nz n w)) = clocked s m l (pins w)"
  "level_after m l (pins (delay_nz n w)) = level_after m l (pins w)"
  by (simp_all add: delay_nz_def gpioDelay_def)

lemma clock_pulse_clocked:
  assumes "io_SCLK dut \<noteq> m"
  shows "clocked (io_SCLK dut) m l (pins (clock_pulse dut w))
           = clocked (io_SCLK dut) m l (pins w) @ [level_after m l (pins w)]"
    and "level_after m l (pins (clock_pulse dut w)) = level_after m l (pins w)"
  using assms by (simp_all add: clock_pulse_def)

lemma tx_loop_clocked:
  assumes "io_SCLK dut \<noteq> io_MOSI dut"
  shows "clocked (io_SCLK dut) (io_MOSI dut) l (pins (tx_loop dut b i w))
           = clocked (io_SCLK dut) (io_MOSI dut) l (pins w) @ map (bit b) (rev [0..<nat (i + 1)])"
proof (induction "nat (i + 1)" arbitrary: i w)
  case 0
  then show ?case by (simp add: tx_loop_done)
next
  case (Suc n)
  then have i: "0 \<le> i" and n: "n = nat (i - 1 + 1)" by simp_all
  have e: "nat (i + 1) = Suc (nat i)" using i by simp
  show ?case
    using assms
    by (simp add: tx_loop_step [OF i] Suc.hyps(1) [OF n] sent_level e clock_pulse_clocked)
qed

lemma tx_byte_clocked:
  assumes "io_SCLK dut \<noteq> io_MOSI dut"
  shows "clocked (io_SCLK dut) (io_MOSI dut) l (pins (tx_byte dut b w))
           = clocked (io_SCLK dut) (io_MOSI dut) l (pins w) @ msb_first b"
  using assms by (simp add: tx_byte_def tx_loop_clocked msb_first_upt del: upt_Suc)

lemma rx_loop_shift_register:
  assumes "input w = shift_register (io_SCLK dut) (io_MOSI dut) (io_MISO dut)"
    and "io_SCLK dut \<noteq> io_MOSI dut"
    and "clocked (io_SCLK dut) (io_MOSI dut) False (pins w) = old @ ls @ pad"
    and "length ls = 8"
    and "length pad = i"
  shows "fst (rx_loop dut i d w) = foldl shift_in d (drop i ls)"
  using assms
proof (induction "8 - i" arbitrary: i d w pad)
  case 0
  then show ?case by (simp add: rx_loop_done)
next
  case (Suc n)
  then have lt: "i < 8" and n: "n = 8 - Suc i" by simp_all
  let ?w' = "clock_pulse dut (snd (gpioRead (io_MISO dut) w))"
  let ?x = "level_after (io_MOSI dut) False (pins w)"
  have lvl: "input w (pins w) (io_MISO dut) = ls ! i"
    using Suc.prems lt by (simp add: shift_register_def nth_append)
  have cl: "clocked (io_SCLK dut) (io_MOSI dut) False (pins ?w') = old @ ls @ (pad @ [?x])"
    using Suc.prems(2,3) by (simp add: clock_pulse_clocked)
  have "fst (rx_loop dut (Suc i) (shift_in d (ls ! i)) ?w') =
      foldl shift_in (shift_in d (ls ! i)) (drop (Suc i) ls)"
    using Suc.prems(1,2,4,5) cl by (intro Suc.hyps(1) [OF n, where pad = "pad @ [?x]"]) simp_all
  moreover have "drop i ls = ls ! i # drop (Suc i) ls"
    using lt Suc.prems(4) by (simp add: Cons_nth_drop_Suc)
  ultimately show ?case
    by (simp add: rx_loop_step' [OF lt] lvl)
qed

lemma rx_loop_tied:
  assumes "input w = tied (io_MOSI dut) (io_MISO dut)"
    and "io_SCLK dut \<noteq> io_MOSI dut"
    and "driven (io_MOSI dut) (pins w) \<noteq> []"
  shows "fst (rx_loop dut i d w)
           = foldl shift_in d (replicate (8 - i) (last (driven (io_MOSI dut) (pins w))))"
  using assms
proof (induction "8 - i" arbitrary: i d w)
  case 0
  then show ?case by (simp add: rx_loop_done)
next
  case (Suc n)
  then have lt: "i < 8" and n: "n = 8 - Suc i" by simp_all
  let ?w' = "clock_pulse dut (snd (gpioRead (io_MISO dut) w))"
  let ?l = "last (driven (io_MOSI dut) (pins w))"
  have lvl: "input w (pins w) (io_MISO dut) = ?l"
    using Suc.prems by (simp add: tied_def)
  have same: "driven (io_MOSI dut) (pins ?w') = driven (io_MOSI dut) (pins w)"
    using Suc.prems(2) by simp
  have "fst (rx_loop dut (Suc i) (shift_in d ?l) ?w') =
      foldl shift_in (shift_in d ?l) (replicate (8 - Suc i) (last (driven (io_MOSI dut) (pins ?w'))))"
    using Suc.prems by (intro Suc.hyps(1) [OF n]) simp_all
  moreover have "replicate (8 - i) ?l = ?l # replicate (8 - Suc i) ?l"
    using lt by (simp add: Suc_diff_Suc flip: replicate_Suc)
  ultimately show ?case
    by (simp add: rx_loop_step' [OF lt] lvl same)
qed

lemma shift_in_bits:
  "bit (shift_in d l) n = (if n = 0 then l else n < 8 \<and> bit d (n - 1))"
proof -
  have p: "bit (push_bit 1 d) n = (n \<noteq> 0 \<and> n < 8 \<and> bit d (n - 1))"
    by (simp only: bit_push_bit_iff possible_bit_word) auto
  have o: "bit (push_bit 1 d OR 1) n = (bit (push_bit 1 d) n \<or> n = 0)"
    by (simp only: bit_or_iff bit_1_iff)
  show ?thesis
    unfolding shift_in_def by (simp only: o p split: if_split) auto
qed

lemma byte_of_msb_first: "foldl shift_in 0 (msb_first b) = b"
  by (rule bit_word_eqI) (auto simp: msb_first_def shift_in_bits numeral_eq_Suc less_Suc_eq)

lemma byte_of_constant:
  "foldl shift_in 0 (replicate 8 l) = (if l then 0xFF else 0)"
  by (simp add: numeral_eq_Suc shift_in_def)

lemma rx_after_tx_tied:
  assumes "io_SCLK dut \<noteq> io_MOSI dut"
    and "input w = tied (io_MOSI dut) (io_MISO dut)"
  shows "fst (rx_byte dut (tx_byte dut b w)) = (if bit b 0 then 0xFF else 0)"
proof -
  let ?w = "tx_byte dut b w"
  have d: "driven (io_MOSI dut) (pins ?w) = driven (io_MOSI dut) (pins w) @ msb_first b"
    using assms(1) by (rule tx_byte_lines(1))
  have l: "last (driven (io_MOSI dut) (pins ?w)) = bit b 0"
    unfolding d by (simp add: msb_first_def)
  have "fst (rx_loop dut 0 0 ?w)
      = foldl shift_in 0 (replicate (8 - 0) (last (driven (io_MOSI dut) (pins ?w))))"
  proof (rule rx_loop_tied)
    show "input ?w = tied (io_MOSI dut) (io_MISO dut)"
      using assms(2) by simp
    show "io_SCLK dut \<noteq> io_MOSI dut"
      by (rule assms(1))
    show "driven (io_MOSI dut) (pins ?w) \<noteq> []"
      unfolding d by (simp add: msb_first_def)
  qed
  then show ?thesis
    by (simp add: rx_byte_def Let_def split_def l byte_of_constant)
qed

subsection \<open>The call log agrees with the pins\<close>

text \<open>
  Each entry of the call log stands for pin activity: \<open>start\<close> and \<open>stop\<close> drive the
  select line low and high, \<open>tx_byte\<close> drives the bits of the logged byte on data-out (lemma
  \<open>tx_byte_lines\<close>), and the byte \<open>rx_byte\<close> logs is made of the eight levels it sampled
  on data-in.
\<close>

lemma setTiming_pinout [simp]:
  "io_SCLK (setTiming dut k) = io_SCLK dut"
  "io_MOSI (setTiming dut k) = io_MOSI dut"
  "io_MISO (setTiming dut k) = io_MISO dut"
  "io_CS (setTiming dut k) = io_CS dut"
  "io_WP (setTiming dut k) = io_WP dut"
  by (simp_all add: setTiming_def Let_def)

lemma new_hwSPI_pinout [simp]:
  "io_SCLK (fst (new_hwSPI a b c d e w)) = a"
  "io_MOSI (fst (new_hwSPI a b c d e w)) = b"
  "io_MISO (fst (new_hwSPI a b c d e w)) = c"
  "io_CS (fst (new_hwSPI a b c d e w)) = d"
  "io_WP (fst (new_hwSPI a b c d e w)) = e"
  by (simp_all add: new_hwSPI_def Let_def)

lemma start_drives:
  "driven p (pins (start dut w)) = driven p (pins w) @ (if io_CS dut = p then [False] else [])"
  by (simp add: start_def)

lemma stop_drives:
  "driven p (pins (stop dut w)) = driven p (pins w) @ (if io_CS dut = p then [True] else [])"
  by (simp add: stop_def)

lemma tx_loop_other:
  assumes "p \<noteq> io_MOSI dut" and "p \<noteq> io_SCLK dut"
  shows "driven p (pins (tx_loop dut b i w)) = driven p (pins w)"
proof (induction "nat (i + 1)" arbitrary: i w)
  case 0
  then show ?case by (simp add: tx_loop_done)
next
  case (Suc n)
  then have i: "0 \<le> i" and n: "n = nat (i - 1 + 1)" by simp_all
  show ?case
    using assms by (simp add: tx_loop_step [OF i] Suc.hyps(1) [OF n])
qed

lemma tx_byte_other:
  "p \<noteq> io_MOSI dut \<Longrightarrow> p \<noteq> io_SCLK dut \<Longrightarrow>
     driven p (pins (tx_byte dut b w)) = driven p (pins w)"
  by (simp add: tx_byte_def tx_loop_other)

lemma rx_loop_other:
  assumes "p \<noteq> io_SCLK dut"
  shows "driven p (pins (snd (rx_loop dut i d w))) = driven p (pins w)"
proof (induction "8 - i" arbitrary: i d w)
  case 0
  then show ?case by (simp add: rx_loop_done)
next
  case (Suc n)
  then have lt: "i < 8" and n: "n = 8 - Suc i" by simp_all
  show ?case
    using assms by (simp add: rx_loop_step [OF lt] Suc.hyps(1) [OF n])
qed

lemma rx_byte_other:
  "p \<noteq> io_SCLK dut \<Longrightarrow> driven p (pins (snd (rx_byte dut w))) = driven p (pins w)"
  by (simp add: rx_byte_def Let_def split_def rx_loop_other)

lemma pins_gpioSetMode [simp]: "pins (gpioSetMode q m w) = pins w @ [SetMode q m]"
  by (simp add: gpioSetMode_def)

lemma new_hwSPI_select:
  "d \<noteq> a \<Longrightarrow> d \<noteq> b \<Longrightarrow> d \<noteq> c \<Longrightarrow> d \<noteq> e \<Longrightarrow>
     driven d (pins (snd (new_hwSPI a b c d e w))) = driven d (pins w) @ [True]"
  by (simp add: new_hwSPI_def Let_def init_def stop_def setWriteProtect_def)

lemma initWrite_select:
  "p \<noteq> io_WP spi \<Longrightarrow> driven p (pins (initWrite dev (HwSPI spi) w)) = driven p (pins w)"
  by (simp add: initWrite_def setWriteProtect_def)

lemma rx_loop_samples:
  "\<exists>ls. length ls = 8 - i
     \<and> sampled (io_MISO dut) (pins (snd (rx_loop dut i d w))) = sampled (io_MISO dut) (pins w) @ ls
     \<and> fst (rx_loop dut i d w) = foldl shift_in d ls"
proof (induction "8 - i" arbitrary: i d w)
  case 0
  then show ?case by (simp add: rx_loop_done)
next
  case (Suc n)
  then have lt: "i < 8" and n: "n = 8 - Suc i" by simp_all
  let ?l = "input w (pins w) (io_MISO dut)"
  let ?w' = "clock_pulse dut (snd (gpioRead (io_MISO dut) w))"
  obtain ls where len: "length ls = 8 - Suc i"
    and smp: "sampled (io_MISO dut) (pins (snd (rx_loop dut (Suc i) (shift_in d ?l) ?w')))
        = sampled (io_MISO dut) (pins ?w') @ ls"
    and val: "fst (rx_loop dut (Suc i) (shift_in d ?l) ?w') = foldl shift_in (shift_in d ?l) ls"
    using Suc.hyps(1) [OF n] by blast
  have "length (?l # ls) = 8 - i"
    using len lt by simp
  moreover have "sampled (io_MISO dut) (pins (snd (rx_loop dut i d w)))
      = sampled (io_MISO dut) (pins w) @ (?l # ls)"
    using smp by (simp add: rx_loop_step' [OF lt] fst_gpioRead)
  moreover have "fst (rx_loop dut i d w) = foldl shift_in d (?l # ls)"
    using val by (simp add: rx_loop_step' [OF lt])
  ultimately show ?case by blast
qed

lemma rx_byte_samples:
  "\<exists>ls. length ls = 8
     \<and> sampled (io_MISO dut) (pins (snd (rx_byte dut w))) = sampled (io_MISO dut) (pins w) @ ls
     \<and> fst (rx_byte dut w) = foldl shift_in 0 ls"
  using rx_loop_samples [of 0 dut 0 w]
  by (simp add: rx_byte_def Let_def split_def)

section \<open>Timing controller\<close>

lemma setTiming_zero:
  "setTiming dut 0 = dut\<lparr>wait_clk := 0, wait_byte := 0, wait_bit := 0\<rparr>"
  by (simp add: setTiming_def)

lemma unat_500_div:
  fixes k :: uint
  shows "unat (500 div k) = 500 div unat k"
  by (simp add: unat_div)

lemma setTiming_half_period:
  fixes k :: uint
  assumes "k \<noteq> 0"
  shows "unat (wait_clk (setTiming dut k)) = max 1 (500 div unat k)"
    and "wait_bit (setTiming dut k) = wait_clk (setTiming dut k)"
    and "wait_byte (setTiming dut k) = wait_clk (setTiming dut k)"
proof -
  have lt: "(500 div k < 1) = (500 div unat k < 1)"
    unfolding word_less_nat_alt unat_500_div by simp
  show "unat (wait_clk (setTiming dut k)) = max 1 (500 div unat k)"
  proof (cases "500 div k < 1")
    case True
    then have "wait_clk (setTiming dut k) = 1"
      using assms by (simp add: setTiming_def Let_def del: word_less_1)
    moreover have "500 div unat k < 1" using True lt by blast
    ultimately show ?thesis by (simp add: max_def)
  next
    case False
    then have "wait_clk (setTiming dut k) = 500 div k"
      using assms by (simp add: setTiming_def Let_def del: word_less_1)
    moreover have "\<not> 500 div unat k < 1" using False lt by blast
    ultimately show ?thesis by (simp add: max_def unat_500_div)
  qed
  show "wait_bit (setTiming dut k) = wait_clk (setTiming dut k)"
    by (simp add: setTiming_def Let_def)
  show "wait_byte (setTiming dut k) = wait_clk (setTiming dut k)"
    by (simp add: setTiming_def Let_def)
qed



section \<open>Claims about the timing controller\<close>

text \<open>
  C4. For every \<open>khz\<close> in [1, 1000], \<open>setTiming\<close> sets the bit, clock-half-period and byte
  quanta all to \<open>max 1 (500 div khz)\<close> microseconds; a higher rate in that range never gives
  a larger quantum than a lower one; and \<open>setTiming 0\<close> sets all three quanta to 0.
\<close>

theorem setTiming_quanta:
  fixes k k' :: uint
  shows "(1 \<le> k \<and> k \<le> 1000 \<longrightarrow>
            unat (wait_bit (setTiming dut k)) = max 1 (500 div unat k)
          \<and> unat (wait_clk (setTiming dut k)) = max 1 (500 div unat k)
          \<and> unat (wait_byte (setTiming dut k)) = max 1 (500 div unat k))
       \<and> (1 \<le> k \<and> k \<le> k' \<and> k' \<le> 1000 \<longrightarrow>
            wait_bit (setTiming dut k') \<le> wait_bit (setTiming dut k)
          \<and> wait_clk (setTiming dut k') \<le> wait_clk (setTiming dut k)
          \<and> wait_byte (setTiming dut k') \<le> wait_byte (setTiming dut k))
       \<and> wait_bit (setTiming dut 0) = 0
       \<and> wait_clk (setTiming dut 0) = 0
       \<and> wait_byte (setTiming dut 0) = 0"
proof -
  have nz: "k \<noteq> 0" if "1 \<le> k" for k :: uint
    using that by (auto simp: word_le_nat_alt)
  have exact: "unat (wait_bit (setTiming dut k)) = max 1 (500 div unat k)
      \<and> unat (wait_clk (setTiming dut k)) = max 1 (500 div unat k)
      \<and> unat (wait_byte (setTiming dut k)) = max 1 (500 div unat k)"
    if "1 \<le> k" for k :: uint
    using setTiming_half_period [OF nz [OF that], of dut] by simp
  have mono: "wait_clk (setTiming dut k') \<le> wait_clk (setTiming dut k)"
    if "1 \<le> k" "k \<le> k'"
  proof -
    have k': "1 \<le> k'" using that by simp
    have pos: "0 < unat k" using nz [OF that(1)] by (simp add: unat_gt_0)
    have "500 div unat k' \<le> 500 div unat k"
      using that(2) pos by (simp add: word_le_nat_alt div_le_mono2)
    then have "max 1 (500 div unat k') \<le> max 1 (500 div unat k)"
      by (simp add: max_def)
    then show ?thesis
      using exact [OF that(1)] exact [OF k'] by (simp add: word_le_nat_alt)
  qed
  show ?thesis
    using exact mono setTiming_half_period(2,3) [OF nz]
    by (auto simp: setTiming_zero)
qed

theorem setTiming_quanta_witness:
  "((1::uint) \<le> 100 \<and> (100::uint) \<le> 250 \<and> (250::uint) \<le> 1000)
   \<and> unat (wait_bit (setTiming pinout_SPI 100)) = 5
   \<and> unat (wait_clk (setTiming pinout_SPI 100)) = 5
   \<and> unat (wait_byte (setTiming pinout_SPI 100)) = 5
   \<and> wait_clk (setTiming pinout_SPI 250) \<le> wait_clk (setTiming pinout_SPI 100)
   \<and> wait_clk (setTiming pinout_SPI 0) = 0"
  using setTiming_quanta [of 100 pinout_SPI 250]
  by simp




section \<open>Claims about the bit-level transport\<close>

text \<open>
  C5, as stated: for every byte \<open>b\<close>, \<open>tx_byte b\<close> followed by \<open>rx_byte\<close> on a line whose
  data-out is tied to data-in returns \<open>b\<close>. It fails on the tied line: \<open>rx_byte\<close> never drives
  data-out, so all eight samples show the last bit \<open>tx_byte\<close> left there, bit 0 of \<open>b\<close>.
  After \<open>tx_byte 0x02\<close> it returns 0x00, after \<open>tx_byte 0x01\<close> it returns 0xFF.
\<close>

theorem tx_then_rx_tied_line:
  "fst (rx_byte pinout_SPI (tx_byte pinout_SPI 0x02 tied_world)) = 0x00
   \<and> fst (rx_byte pinout_SPI (tx_byte pinout_SPI 0x01 tied_world)) = 0xFF"
  using rx_after_tx_tied [of pinout_SPI tied_world "0x02"]
    rx_after_tx_tied [of pinout_SPI tied_world "0x01"]
  by (simp add: pinout_SPI_def SPI_SCLK_def SPI_MOSI_def SPI_MISO_def tied_world_def
      idle_world_def)

text \<open>
  C5, as amended. Both directions move 8 bits, most significant first: \<open>tx_byte b\<close> drives
  bit 7 down to bit 0 of \<open>b\<close> on data-out, and \<open>rx_byte\<close> shifts its eight samples in, first
  sample highest. So for every transport whose clock and data-out are different pins, every
  byte \<open>b\<close> and every earlier history of the lines: on a loop-back through an 8-stage shift
  register clocked by the clock line (data-in shows the level data-out had at the eighth-last
  clock pulse), \<open>tx_byte b\<close> followed by \<open>rx_byte\<close> returns \<open>b\<close>; on a line whose data-in is
  tied to the present level of data-out it returns 0xFF when bit 0 of \<open>b\<close> is set and 0x00
  otherwise.
\<close>

theorem tx_then_rx_loopback:
  assumes "io_SCLK dut \<noteq> io_MOSI dut"
  shows "driven (io_MOSI dut) (pins (tx_byte dut b w))
           = driven (io_MOSI dut) (pins w) @ msb_first b
       \<and> (input w = shift_register (io_SCLK dut) (io_MOSI dut) (io_MISO dut)
          \<longrightarrow> fst (rx_byte dut (tx_byte dut b w)) = b)
       \<and> (input w = tied (io_MOSI dut) (io_MISO dut)
          \<longrightarrow> fst (rx_byte dut (tx_byte dut b w)) = (if bit b 0 then 0xFF else 0))"
proof (intro conjI impI)
  show "driven (io_MOSI dut) (pins (tx_byte dut b w))
      = driven (io_MOSI dut) (pins w) @ msb_first b"
    using assms by (rule tx_byte_lines(1))
next
  assume line: "input w = shift_register (io_SCLK dut) (io_MOSI dut) (io_MISO dut)"
  let ?w = "tx_byte dut b w"
  have "fst (rx_loop dut 0 0 ?w) = foldl shift_in 0 (drop 0 (msb_first b))"
  proof (rule rx_loop_shift_register
      [where old = "clocked (io_SCLK dut) (io_MOSI dut) False (pins w)" and pad = "[]"])
    show "input ?w = shift_register (io_SCLK dut) (io_MOSI dut) (io_MISO dut)"
      using line by simp
    show "io_SCLK dut \<noteq> io_MOSI dut"
      by (rule assms)
    show "clocked (io_SCLK dut) (io_MOSI dut) False (pins ?w)
        = clocked (io_SCLK dut) (io_MOSI dut) False (pins w) @ msb_first b @ []"
      using assms by (simp add: tx_byte_clocked)
    show "length (msb_first b) = 8"
      by (simp add: msb_first_def)
    show "length ([] :: bool list) = 0"
      by simp
  qed
  then show "fst (rx_byte dut (tx_byte dut b w)) = b"
    by (simp add: rx_byte_def Let_def split_def byte_of_msb_first)
next
  assume "input w = tied (io_MOSI dut) (io_MISO dut)"
  with assms show "fst (rx_byte dut (tx_byte dut b w)) = (if bit b 0 then 0xFF else 0)"
    by (rule rx_after_tx_tied)
qed

text \<open>The instance: the transport and the lines as the constructor leaves them.\<close>

theorem tx_then_rx_loopback_witness:
  "io_SCLK (fst (power_on shift_world)) \<noteq> io_MOSI (fst (power_on shift_world))
   \<and> fst (rx_byte (fst (power_on shift_world))
        (tx_byte (fst (power_on shift_world)) 0xA5 (snd (power_on shift_world)))) = 0xA5
   \<and> fst (rx_byte (fst (power_on tied_world))
        (tx_byte (fst (power_on tied_world)) 0xA5 (snd (power_on tied_world)))) = 0xFF"
  using tx_then_rx_loopback [of "fst (power_on shift_world)" "0xA5" "snd (power_on shift_world)"]
    tx_then_rx_loopback [of "fst (power_on tied_world)" "0xA5" "snd (power_on tied_world)"]
  by (simp add: power_on_def SPI_SCLK_def SPI_MOSI_def SPI_MISO_def idle_world_def
      tied_world_def shift_world_def)

section \<open>Claims about identification\<close>

text \<open>
  C10. Whatever the input lines show, \<open>hwSPI::readJedecId\<close> and \<open>hwSPI::readId\<close> return
  true, and after \<open>initRead\<close> on an SPI transport \<open>jedecValid\<close> is true: the identity stored
  is the three bytes received, whatever they are (all zero and all 0xFF included), so an SPI
  identify never reports failure.
\<close>

theorem spi_identify_never_fails:
  "fst (readJedecId dut cid w)
   \<and> fst (readId dut cid w)
   \<and> jedecValid (fst (initRead dev (HwSPI dut) w))
   \<and> (\<exists>m t c w'. readJedecId dut cid w
          = (True, cid\<lparr>manufacturer := m, memoryType := t, capacity := c\<rparr>, w')
        \<and> calls w' = calls w @ [Start, Tx 0x9F, Rx m, Rx t, Rx c, Stop])"
proof -
  have "fst (readJedecId dut cid w)" and "fst (readId dut cid w)"
    and "jedecValid (fst (initRead dev (HwSPI dut) w))"
    by (simp_all add: readJedecId_def readId_def initRead_def Let_def split_def)
  moreover have "\<exists>m t c w'. readJedecId dut cid w
          = (True, cid\<lparr>manufacturer := m, memoryType := t, capacity := c\<rparr>, w')
        \<and> calls w' = calls w @ [Start, Tx 0x9F, Rx m, Rx t, Rx c, Stop]"
    using readJedecId_calls [of dut cid w] by (auto simp: READ_JEDEC_ID_def)
  ultimately show ?thesis by blast
qed

section \<open>Claims about the operations\<close>

text \<open>
  C7. For every \<open>Device\<close> whose interface and protocol are not SPI with the 25-series, each of
  \<open>dumpFlashToFile\<close>, \<open>writeFileToFlash\<close> and \<open>eraseFlash\<close> writes its diagnostic and
  returns: device and file are unchanged, and the world differs only by the one line on the
  error stream, so no pin was set, written, read or delayed and no transport call was made.
\<close>

theorem unsupported_pairing_rejected:
  assumes "interface dev \<noteq> SPI \<or> protocol dev \<noteq> S25"
  shows "dumpFlashToFile dev file w = (dev, file,
           report ''Dump only supported for SPI/25-series. DSPI, QSPI, I2C not yet implemented.'' w)
       \<and> writeFileToFlash dev file w = Some (file,
           report ''Write only supported for SPI/25-series. DSPI, QSPI, I2C not yet implemented.'' w)
       \<and> eraseFlash dev byteCount w = Some
           (report ''Erase only supported for SPI/25-series. DSPI, QSPI, I2C not yet implemented.'' w)
       \<and> pins (report msg w) = pins w
       \<and> calls (report msg w) = calls w
       \<and> cerr (report msg w) = cerr w @ [msg]"
  using assms
  by (simp add: dumpFlashToFile_def writeFileToFlash_def eraseFlash_def unsupported_def)

theorem unsupported_pairing_rejected_witness:
  "pins (snd (snd (dumpFlashToFile i2c_Device empty_out_file idle_world))) = []
   \<and> calls (snd (snd (dumpFlashToFile i2c_Device empty_out_file idle_world))) = []
   \<and> cerr (snd (snd (dumpFlashToFile i2c_Device empty_out_file idle_world)))
       = [''Dump only supported for SPI/25-series. DSPI, QSPI, I2C not yet implemented.'']
   \<and> map_option (\<lambda>r. (pins (snd r), calls (snd r)))
        (writeFileToFlash i2c_Device one_byte_file idle_world) = Some ([], [])
   \<and> map_option (\<lambda>w. (pins w, calls w)) (eraseFlash i2c_Device 0 idle_world) = Some ([], [])"
  using unsupported_pairing_rejected [of i2c_Device empty_out_file idle_world 0]
    unsupported_pairing_rejected [of i2c_Device one_byte_file idle_world 0]
  by (simp add: i2c_Device_def default_Device_def idle_world_def report_def)






text \<open>
  C2. For a \<open>Device\<close> with offset 0 and the SPI / 25-series pairing, \<open>eraseFlash\<close> with byte
  count 8192 should issue exactly two (write-enable, sector-erase, busy-poll) triples, at
  addresses 0 and 4096, and no other command byte. The code at that input, on a line where
  the status reads not busy: the two triples are there, with the addresses 0x000000 and
  0x001000, but the write-enable that precedes the branch on the byte count is sent too, so
  three write-enable commands go out; the \<open>start\<close> after it opens a transaction that the
  loop's own \<open>start\<close> reopens, and the final \<open>stop\<close> closes nothing.
\<close>

theorem eraseFlash_two_sectors:
  "map_option (\<lambda>w. (calls w, count_list (calls w) (Tx WRITE_ENABLE)))
      (eraseFlash default_Device 8192 idle_world)
     = Some ([Stop,
              Start, Tx 0x06, Stop, Start,
              Start, Tx 0x06, Stop, Start, Tx 0x20, Tx 0, Tx 0, Tx 0, Stop,
              Start, Tx 0x05, Rx 0, Stop,
              Start, Tx 0x06, Stop, Start, Tx 0x20, Tx 0, Tx 0x10, Tx 0, Stop,
              Start, Tx 0x05, Rx 0, Stop,
              Stop], 3)"
  by (simp add: eraseFlash_def unsupported_def default_Device_def Let_def split_def idle_world_def
      WRITE_ENABLE_def SECTOR_ERASE_4K_def READ_STATUS_def erase_loop_step erase_loop_done
      s25_waitBusy_quiet addr_hi_def addr_mid_def addr_lo_def)

text \<open>
  C6. In every public operation at most one chip-select transaction should be open at a
  time, every \<open>start\<close> being matched by a \<open>stop\<close> before the next \<open>start\<close>. The code of
  \<open>eraseFlash\<close> with a byte count other than 0, here 4096: the \<open>start\<close> before the branch
  on the byte count is followed by the \<open>start\<close> at the head of the sector loop with no
  \<open>stop\<close> between them, so the framing check fails on the calls it makes. On the pins,
  the select line is driven low twice in a row (and high twice in a row at the end).
\<close>

theorem eraseFlash_range_nested_start:
  "map_option (\<lambda>w. (frames_ok False (calls w), driven SPI_CS (pins w)))
      (eraseFlash default_Device 4096 idle_world)
     = Some (False,
         [True, False, True, False, False, True, False, True, False, True, True])"
  by (simp add: eraseFlash_def unsupported_def default_Device_def Let_def split_def idle_world_def
      erase_loop_step erase_loop_done s25_waitBusy_quiet
      start_drives stop_drives tx_byte_other rx_byte_other new_hwSPI_select initWrite_select
      SPI_CS_def SPI_SCLK_def SPI_MOSI_def SPI_MISO_def SPI_WP_def)

text \<open>
  C1. In \<open>writeFileToFlash\<close> the address should advance only by the bytes written in each
  chunk, and when the file ends in the middle of a chunk the chunk should be cut short and the
  page loop should end, with no padding and no further program command. The code at 512
  bytes requested from a file that holds one byte: the first page program carries the one
  byte, not padded, but the loop does not end. The \<open>break\<close> leaves only the data loop; address
  and remaining count move by the full 256, and a second write-enable and page program follow
  at address 0x000100 with no data byte.
\<close>

theorem writeFileToFlash_short_file:
  "map_option (\<lambda>r. calls (snd r))
      (writeFileToFlash (default_Device\<lparr>bytes := 512\<rparr>) one_byte_file idle_world)
     = Some [Stop,
             Start, Tx 0x06, Stop, Start, Tx 0x02, Tx 0, Tx 0, Tx 0, Tx 0xAB, Stop,
             Start, Tx 0x05, Rx 0, Stop,
             Start, Tx 0x06, Stop, Start, Tx 0x02, Tx 0, Tx 1, Tx 0, Stop,
             Start, Tx 0x05, Rx 0, Stop]"
  by (simp add: writeFileToFlash_def unsupported_def default_Device_def Let_def split_def
      idle_world_def isReadMode_def one_byte_file_def
      WRITE_ENABLE_def PAGE_PROGRAM_def READ_STATUS_def S25_PAGE_SIZE_def
      write_loop_step write_loop_done page_loop_step page_loop_done
      pullByteFromFile_def refill_def MAX_RAM_BYTES_def
      s25_waitBusy_quiet addr_hi_def addr_mid_def addr_lo_def)

end
